theory Spec2Isabelle
  imports Main "HOL-Library.Multiset"
begin

section \<open>The file system and the platform\<close>

text \<open>
  The backup engine of GameSave-Manager (\<^verbatim>\<open>BackupManager\<close> in \<^verbatim>\<open>src/main.js\<close>,
  \<^verbatim>\<open>SaveMonitor\<close> in \<^verbatim>\<open>src/utils/configManager.js\<close>) works on files through
  \<^verbatim>\<open>fs-extra\<close>. A path is a string. A file is given by its bytes, or, for a file
  that holds JSON text, by the value \<^verbatim>\<open>JSON.parse\<close> reads from it: the program
  parses only \<^verbatim>\<open>metadata.json\<close>, whose value is either an object with a
  \<^verbatim>\<open>backups\<close> array (the ledger) or some other JSON value, on which every use
  of \<^verbatim>\<open>metadata.backups\<close> throws. The bytes of a \<open>Bytes\<close> file are not JSON text:
  parsing them throws. Directories are not part of the state: a path is present iff
  it names a regular file.
\<close>

type_synonym path = string

text \<open>
  One record of the ledger. \<^verbatim>\<open>id\<close> and \<^verbatim>\<open>size\<close> are written \<open>id_b\<close> and
  \<open>size_b\<close>. \<^verbatim>\<open>timestamp\<close> is the ISO 8601 string of \<^verbatim>\<open>Date.toISOString\<close>; the
  program reads it only through \<^verbatim>\<open>new Date(timestamp)\<close>, so it is kept as that
  number of milliseconds.
\<close>

record backup_info =
  id_b :: string
  originalFileName :: string
  backupFileName :: string
  timestamp :: int
  size_b :: nat
  hash :: string
  originalPath :: path
  screenshot :: "string option"

datatype json = Ledger "backup_info list" | NotLedger

datatype content = Bytes string | JsonText json

datatype error = ENOENT | EIO | SyntaxError | TypeError

record world =
  files :: "path \<rightharpoonup> content"

text \<open>
  What a failing \<^verbatim>\<open>fs.copy\<close> leaves at its destination: nothing changed, or the
  destination removed (\<open>None\<close>) or holding some partial content.
\<close>

datatype copy_outcome = CopyOk | CopyFailsClean | CopyFailsLeaving "content option"

text \<open>
  The platform: the library functions and the behaviour of the operating system that
  the program depends on. \<open>md5\<close> is \<^verbatim>\<open>crypto.createHash('md5')\<close> with the hex
  digest; \<open>stringify\<close> is the text \<^verbatim>\<open>writeJsonSync\<close> writes for a value (it gives a
  JSON file its bytes); the other fields say which operations the file system
  refuses. \<open>mkdir_fails d\<close> says that directory \<open>d\<close> is absent and cannot be made;
  \<open>remove_fails p\<close> says that the removal of \<open>p\<close>, when it is there, is refused.
\<close>

record platform =
  md5 :: "string \<Rightarrow> string"
  stringify :: "json \<Rightarrow> string"
  copy_outcome :: "path \<Rightarrow> path \<Rightarrow> copy_outcome"
  read_fails :: "path \<Rightarrow> bool"
  write_fails :: "path \<Rightarrow> bool"
  mkdir_fails :: "path \<Rightarrow> bool"
  remove_fails :: "path \<Rightarrow> bool"

text \<open>The values a call reads from the clock and the random generator.\<close>

record clock =
  new_Date :: int
  Date_now :: nat
  Math_random :: string

definition content_bytes :: "platform \<Rightarrow> content \<Rightarrow> string" where
  "content_bytes P c = (case c of Bytes bs \<Rightarrow> bs | JsonText v \<Rightarrow> stringify P v)"

definition existsSync :: "world \<Rightarrow> path \<Rightarrow> bool" where
  "existsSync w p = (files w p \<noteq> None)"

text \<open>\<^verbatim>\<open>fs.statSync(p).size\<close>; it throws when the path is absent.\<close>

definition statSync_size :: "platform \<Rightarrow> world \<Rightarrow> path \<Rightarrow> error + nat" where
  "statSync_size P w p =
     (case files w p of None \<Rightarrow> Inl ENOENT | Some c \<Rightarrow> Inr (length (content_bytes P c)))"

text \<open>
  \<^verbatim>\<open>fs.removeSync\<close>: removes the path, and does nothing when it is absent. When
  the file system refuses the removal it throws and the file stays.
\<close>

definition removeSync :: "platform \<Rightarrow> path \<Rightarrow> world \<Rightarrow> (error + unit) \<times> world" where
  "removeSync P p w =
     (if files w p \<noteq> None \<and> remove_fails P p then (Inl EIO, w)
      else (Inr (), w\<lparr>files := (files w)(p := None)\<rparr>))"

text \<open>
  \<^verbatim>\<open>fs.copy\<close> of a file: the platform says whether it succeeds, and what a failure
  leaves behind. A source that is absent makes it fail with nothing changed.
\<close>

definition copy :: "platform \<Rightarrow> path \<Rightarrow> path \<Rightarrow> world \<Rightarrow> (error + unit) \<times> world" where
  "copy P src dst w =
     (case files w src of
        None \<Rightarrow> (Inl ENOENT, w)
      | Some c \<Rightarrow>
          (case copy_outcome P src dst of
             CopyOk \<Rightarrow> (Inr (), w\<lparr>files := (files w)(dst \<mapsto> c)\<rparr>)
           | CopyFailsClean \<Rightarrow> (Inl EIO, w)
           | CopyFailsLeaving d \<Rightarrow> (Inl EIO, w\<lparr>files := (files w)(dst := d)\<rparr>)))"

definition readJsonSync :: "platform \<Rightarrow> world \<Rightarrow> path \<Rightarrow> error + json" where
  "readJsonSync P w p =
     (case files w p of
        None \<Rightarrow> Inl ENOENT
      | Some c \<Rightarrow>
          (if read_fails P p then Inl EIO
           else (case c of Bytes bs \<Rightarrow> Inl SyntaxError | JsonText v \<Rightarrow> Inr v)))"

definition writeJsonSync :: "platform \<Rightarrow> path \<Rightarrow> json \<Rightarrow> world \<Rightarrow> (error + unit) \<times> world" where
  "writeJsonSync P p v w =
     (if write_fails P p then (Inl EIO, w)
      else (Inr (), w\<lparr>files := (files w)(p \<mapsto> JsonText v)\<rparr>))"

text \<open>
  \<^verbatim>\<open>path.join(dir, name)\<close>, \<^verbatim>\<open>path.basename\<close> and \<^verbatim>\<open>path.dirname\<close> with the
  separator \<open>/\<close>, for paths that have one; the normalisation \<^verbatim>\<open>path.join\<close> does
  is left out.
\<close>

definition path_join :: "path \<Rightarrow> string \<Rightarrow> path" where
  "path_join d n = d @ ''/'' @ n"

definition path_basename :: "path \<Rightarrow> string" where
  "path_basename p = rev (takeWhile (\<lambda>c. c \<noteq> CHR ''/'') (rev p))"

definition path_dirname :: "path \<Rightarrow> path" where
  "path_dirname p = rev (tl (dropWhile (\<lambda>c. c \<noteq> CHR ''/'') (rev p)))"

section \<open>BackupManager\<close>

text \<open>
  The manager's fields. \<^verbatim>\<open>metadataFile\<close> is always
  \<^verbatim>\<open>path.join(backupPath, 'metadata.json')\<close>, as the constructor sets it.
  \<^verbatim>\<open>maxBackups\<close> is the retention ceiling, a count of records (the configuration
  gives an integer, at least 1; the default is 50).
\<close>

record backup_manager =
  backupPath :: path
  maxBackups :: nat

definition metadataFile :: "backup_manager \<Rightarrow> path" where
  "metadataFile bm = path_join (backupPath bm) ''metadata.json''"

definition setMaxBackups :: "nat \<Rightarrow> backup_manager \<Rightarrow> backup_manager" where
  "setMaxBackups n bm = bm\<lparr>maxBackups := n\<rparr>"

text \<open>
  \<^verbatim>\<open>ensureBackupDir\<close> makes the directory when it is absent and writes an empty
  ledger when \<^verbatim>\<open>metadata.json\<close> is absent; it throws what these throw.
\<close>

definition ensureBackupDir :: "platform \<Rightarrow> backup_manager \<Rightarrow> world \<Rightarrow> (error + unit) \<times> world" where
  "ensureBackupDir P bm w =
     (if mkdir_fails P (backupPath bm) then (Inl EIO, w)
      else if \<not> existsSync w (metadataFile bm)
           then writeJsonSync P (metadataFile bm) (Ledger []) w
      else (Inr (), w))"

text \<open>The constructor: the fields, then \<^verbatim>\<open>ensureBackupDir\<close>.\<close>

definition new_BackupManager ::
  "platform \<Rightarrow> path \<Rightarrow> world \<Rightarrow> (error + backup_manager) \<times> world" where
  "new_BackupManager P p w =
     (case ensureBackupDir P \<lparr>backupPath = p, maxBackups = 50\<rparr> w of
        (Inl e, w') \<Rightarrow> (Inl e, w')
      | (Inr u, w') \<Rightarrow> (Inr \<lparr>backupPath = p, maxBackups = 50\<rparr>, w'))"

text \<open>
  \<^verbatim>\<open>getMetadata\<close> catches every error of the read and answers the empty ledger; it
  has no way to raise.
\<close>

definition getMetadata :: "platform \<Rightarrow> backup_manager \<Rightarrow> world \<Rightarrow> json" where
  "getMetadata P bm w =
     (if existsSync w (metadataFile bm)
      then (case readJsonSync P w (metadataFile bm) of
              Inr v \<Rightarrow> v
            | Inl e \<Rightarrow> Ledger [])
      else Ledger [])"

text \<open>The decimal digits of a number, as \<^verbatim>\<open>Date.now()\<close> is printed into the id.\<close>

definition digit_char :: "nat \<Rightarrow> char" where
  "digit_char n = ''0123456789'' ! n"

fun decimal :: "nat \<Rightarrow> string" where
  "decimal n = (if n < 10 then [digit_char n] else decimal (n div 10) @ [digit_char (n mod 10)])"

declare decimal.simps [simp del]

definition generateBackupId :: "clock \<Rightarrow> string" where
  "generateBackupId clk = ''backup_'' @ decimal (Date_now clk) @ ''_'' @ Math_random clk"

definition calculateFileHash :: "platform \<Rightarrow> world \<Rightarrow> path \<Rightarrow> error + string" where
  "calculateFileHash P w p =
     (case files w p of
        None \<Rightarrow> Inl ENOENT
      | Some c \<Rightarrow> (if read_fails P p then Inl EIO else Inr (md5 P (content_bytes P c))))"

text \<open>
  The comparator \<^verbatim>\<open>(a, b) => new Date(b.timestamp) - new Date(a.timestamp)\<close> with the
  stable \<^verbatim>\<open>Array.prototype.sort\<close>: newest first, records of equal time in their
  order.
\<close>

definition sort_newest_first :: "backup_info list \<Rightarrow> backup_info list" where
  "sort_newest_first bs = sort_key (\<lambda>b. - timestamp b) bs"

text \<open>
  The body of the loop over \<^verbatim>\<open>backupsToDelete\<close>: a removal that throws is caught
  and logged, and the loop goes on.
\<close>

definition remove_backup_file ::
  "platform \<Rightarrow> backup_manager \<Rightarrow> backup_info \<Rightarrow> world \<Rightarrow> world" where
  "remove_backup_file P bm b w =
     (let backupFilePath = path_join (backupPath bm) (backupFileName b)
      in if existsSync w backupFilePath
         then (case removeSync P backupFilePath w of
                 (Inr u, w') \<Rightarrow> w'
               | (Inl e, w') \<Rightarrow> w')
         else w)"

definition cleanupOldBackups ::
  "platform \<Rightarrow> backup_manager \<Rightarrow> backup_info list \<Rightarrow> world \<Rightarrow> backup_info list \<times> world" where
  "cleanupOldBackups P bm backups w =
     (if length backups \<le> maxBackups bm then (backups, w)
      else
        let sorted = sort_newest_first backups;
            backupsToDelete = drop (maxBackups bm) sorted;
            backupsToKeep = take (maxBackups bm) sorted
        in (backupsToKeep, fold (remove_backup_file P bm) backupsToDelete w))"

text \<open>
  The part of \<^verbatim>\<open>createBackup\<close> after the ledger was read: the duplicate check
  against the last element of the array, the new record, eviction, the write and its
  check, and the removal of a duplicate's archive file (a removal that throws is
  caught and logged, and the record is returned all the same).
\<close>

definition record_backup ::
  "platform \<Rightarrow> backup_manager \<Rightarrow> backup_info \<Rightarrow> path \<Rightarrow> backup_info list \<Rightarrow> world
     \<Rightarrow> backup_info option \<times> world" where
  "record_backup P bm backupInfo backupFilePath backups w =
     (let isDuplicate = (backups \<noteq> [] \<and> hash (last backups) = hash backupInfo);
          (kept, w1) = cleanupOldBackups P bm (backups @ [backupInfo]) w
      in case writeJsonSync P (metadataFile bm) (Ledger kept) w1 of
           (Inl e, w2) \<Rightarrow> (None, w2)
         | (Inr u, w2) \<Rightarrow>
             if existsSync w2 (metadataFile bm)
             then (case readJsonSync P w2 (metadataFile bm) of
                     Inl e \<Rightarrow> (None, w2)
                   | Inr NotLedger \<Rightarrow> (None, w2)
                   | Inr (Ledger saved) \<Rightarrow>
                       (Some backupInfo,
                        if isDuplicate
                        then (case removeSync P backupFilePath w2 of
                                (Inr u, w3) \<Rightarrow> w3
                              | (Inl e, w3) \<Rightarrow> w3)
                        else w2))
             else (None, w2))"

text \<open>
  \<^verbatim>\<open>createBackup\<close> returns the new record, or \<^verbatim>\<open>null\<close> (\<open>None\<close>) when anything
  inside it threw.
\<close>

definition createBackup ::
  "platform \<Rightarrow> backup_manager \<Rightarrow> clock \<Rightarrow> path \<Rightarrow> world \<Rightarrow> backup_info option \<times> world" where
  "createBackup P bm clk sourceFilePath w =
     (if \<not> existsSync w sourceFilePath then (None, w)
      else case statSync_size P w sourceFilePath of
        Inl e \<Rightarrow> (None, w)
      | Inr stats_size \<Rightarrow>
         (let backupId = generateBackupId clk;
              fileName = path_basename sourceFilePath;
              backupFileName = backupId @ ''_'' @ fileName;
              backupFilePath = path_join (backupPath bm) backupFileName
          in (case ensureBackupDir P bm w of
               (Inl e, w1) \<Rightarrow> (None, w1)
             | (Inr u, w1) \<Rightarrow>
                 (case copy P sourceFilePath backupFilePath w1 of
                    (Inl e, w2) \<Rightarrow> (None, w2)
                  | (Inr u, w2) \<Rightarrow>
                      if \<not> existsSync w2 backupFilePath then (None, w2)
                      else (case calculateFileHash P w2 sourceFilePath of
                              Inl e \<Rightarrow> (None, w2)
                            | Inr fileHash \<Rightarrow>
                                (case getMetadata P bm w2 of
                                   NotLedger \<Rightarrow> (None, w2)
                                 | Ledger backups \<Rightarrow>
                                     record_backup P bm
                                       \<lparr>id_b = backupId,
                                        originalFileName = fileName,
                                        backupFileName = backupFileName,
                                        timestamp = new_Date clk,
                                        size_b = stats_size,
                                        hash = fileHash,
                                        originalPath = sourceFilePath,
                                        screenshot = None\<rparr>
                                       backupFilePath backups w2))))))"

definition getBackupList :: "platform \<Rightarrow> backup_manager \<Rightarrow> world \<Rightarrow> backup_info list" where
  "getBackupList P bm w =
     (case getMetadata P bm w of Ledger backups \<Rightarrow> sort_newest_first backups | NotLedger \<Rightarrow> [])"

text \<open>
  \<^verbatim>\<open>restoreBackup\<close> answers \<^verbatim>\<open>true\<close>, or \<^verbatim>\<open>false\<close> when anything inside it threw.
  \<open>restore_over\<close> is its branch for a target that exists; \<open>restore_undo\<close> is the
  \<^verbatim>\<open>catch\<close> block of that branch, entered when the copy of the archive or the
  removal of the temporary sibling threw: it copies the sibling back, removes it and
  throws again, so the answer is \<^verbatim>\<open>false\<close> whatever its own steps do.
\<close>

definition restore_undo :: "platform \<Rightarrow> path \<Rightarrow> path \<Rightarrow> world \<Rightarrow> bool \<times> world" where
  "restore_undo P tempBackupPath targetPath w =
     (case copy P tempBackupPath targetPath w of
        (Inl e, w1) \<Rightarrow> (False, w1)
      | (Inr u, w1) \<Rightarrow>
          (case removeSync P tempBackupPath w1 of
             (Inl e, w2) \<Rightarrow> (False, w2)
           | (Inr u, w2) \<Rightarrow> (False, w2)))"

definition restore_over :: "platform \<Rightarrow> path \<Rightarrow> path \<Rightarrow> world \<Rightarrow> bool \<times> world" where
  "restore_over P backupFilePath targetPath w =
     (let tempBackupPath = targetPath @ ''.temp_backup''
      in case copy P targetPath tempBackupPath w of
           (Inl e, w1) \<Rightarrow> (False, w1)
         | (Inr u, w1) \<Rightarrow>
             (case copy P backupFilePath targetPath w1 of
                (Inl e, w2) \<Rightarrow> restore_undo P tempBackupPath targetPath w2
              | (Inr u, w2) \<Rightarrow>
                  (case removeSync P tempBackupPath w2 of
                     (Inl e, w3) \<Rightarrow> restore_undo P tempBackupPath targetPath w3
                   | (Inr u, w3) \<Rightarrow> (True, w3))))"

definition restoreBackup ::
  "platform \<Rightarrow> backup_manager \<Rightarrow> string \<Rightarrow> path \<Rightarrow> world \<Rightarrow> bool \<times> world" where
  "restoreBackup P bm backupId targetPath w =
     (case getMetadata P bm w of
        NotLedger \<Rightarrow> (False, w)
      | Ledger backups \<Rightarrow>
          (case find (\<lambda>b. id_b b = backupId) backups of
             None \<Rightarrow> (False, w)
           | Some backup \<Rightarrow>
               let backupFilePath = path_join (backupPath bm) (backupFileName backup)
               in if \<not> existsSync w backupFilePath then (False, w)
                  else if existsSync w targetPath
                       then restore_over P backupFilePath targetPath w
                  else if mkdir_fails P (path_dirname targetPath) then (False, w)
                  else (case copy P backupFilePath targetPath w of
                          (Inl e, w1) \<Rightarrow> (False, w1)
                        | (Inr u, w1) \<Rightarrow> (True, w1))))"

text \<open>
  \<^verbatim>\<open>deleteBackup\<close> answers \<^verbatim>\<open>false\<close> when the record is not in the ledger or
  anything inside it threw. \<^verbatim>\<open>splice(backupIndex, 1)\<close> takes out the first record
  with the id.
\<close>

definition deleteBackup ::
  "platform \<Rightarrow> backup_manager \<Rightarrow> string \<Rightarrow> world \<Rightarrow> bool \<times> world" where
  "deleteBackup P bm backupId w =
     (case getMetadata P bm w of
        NotLedger \<Rightarrow> (False, w)
      | Ledger backups \<Rightarrow>
          (case find (\<lambda>b. id_b b = backupId) backups of
             None \<Rightarrow> (False, w)
           | Some backup \<Rightarrow>
               let backupFilePath = path_join (backupPath bm) (backupFileName backup)
               in (case (if existsSync w backupFilePath then removeSync P backupFilePath w
                         else (Inr (), w)) of
                     (Inl e, w1) \<Rightarrow> (False, w1)
                   | (Inr u, w1) \<Rightarrow>
                       (case writeJsonSync P (metadataFile bm)
                               (Ledger (takeWhile (\<lambda>b. id_b b \<noteq> backupId) backups @
                                        tl (dropWhile (\<lambda>b. id_b b \<noteq> backupId) backups))) w1 of
                          (Inl e, w2) \<Rightarrow> (False, w2)
                        | (Inr u, w2) \<Rightarrow> (True, w2)))))"

text \<open>
  \<^verbatim>\<open>getBackupInfo\<close> and \<^verbatim>\<open>getBackupStats\<close> have no \<^verbatim>\<open>try\<close>: on a value without
  a \<^verbatim>\<open>backups\<close> array they throw.
\<close>

definition getBackupInfo ::
  "platform \<Rightarrow> backup_manager \<Rightarrow> string \<Rightarrow> world \<Rightarrow> error + backup_info option" where
  "getBackupInfo P bm backupId w =
     (case getMetadata P bm w of
        NotLedger \<Rightarrow> Inl TypeError
      | Ledger backups \<Rightarrow> Inr (find (\<lambda>b. id_b b = backupId) backups))"

record backup_stats =
  totalBackups :: nat
  totalSize :: nat
  oldestBackup :: "int option"
  newestBackup :: "int option"

definition getBackupStats :: "platform \<Rightarrow> backup_manager \<Rightarrow> world \<Rightarrow> error + backup_stats" where
  "getBackupStats P bm w =
     (case getMetadata P bm w of
        NotLedger \<Rightarrow> Inl TypeError
      | Ledger backups \<Rightarrow>
          Inr \<lparr>totalBackups = length backups,
               totalSize = sum_list (map size_b backups),
               oldestBackup = (if length backups > 0
                               then Some (Min (set (map timestamp backups))) else None),
               newestBackup = (if length backups > 0
                               then Some (Max (set (map timestamp backups))) else None)\<rparr>)"

section \<open>SaveMonitor\<close>

text \<open>
  The state of a \<^verbatim>\<open>SaveMonitor\<close> and the methods the properties below are about
  (\<^verbatim>\<open>start\<close> and the debounce timer's callback are left out).
  The watcher and the two timers are known to the monitor by their handles; \<open>active\<close>
  is the set of handles that are open (a watcher) or pending (a timer), which
  \<^verbatim>\<open>watcher.close()\<close>, \<^verbatim>\<open>clearInterval\<close> and \<^verbatim>\<open>clearTimeout\<close> shrink. The
  events the monitor emits are kept in \<open>emitted\<close>, oldest first; what the listeners
  do with them is outside the monitor.
\<close>

datatype monitor_error = SaveFileMissing | CheckFailed error | CreateBackupFailed error

datatype event =
    FileChangeDetected path
  | MonitoringStarted path
  | MonitoringStopped
  | BackupCreated string int nat string path
  | ErrorEvent monitor_error

record save_monitor =
  saveFilePath :: path
  backupManager :: backup_manager
  watcher :: "nat option"
  isMonitoring :: bool
  lastHash :: "string option"
  checkInterval :: "nat option"
  debounceTimeout :: "nat option"
  debounceDelay :: nat
  active :: "nat set"
  emitted :: "event list"

definition new_SaveMonitor :: "path \<Rightarrow> backup_manager \<Rightarrow> save_monitor" where
  "new_SaveMonitor p bm =
     \<lparr>saveFilePath = p, backupManager = bm, watcher = None, isMonitoring = False,
      lastHash = None, checkInterval = None, debounceTimeout = None, debounceDelay = 1000,
      active = {}, emitted = []\<rparr>"

definition emit :: "event \<Rightarrow> save_monitor \<Rightarrow> save_monitor" where
  "emit e m = m\<lparr>emitted := emitted m @ [e]\<rparr>"

definition release :: "nat \<Rightarrow> save_monitor \<Rightarrow> save_monitor" where
  "release h m = m\<lparr>active := active m - {h}\<rparr>"

definition stop :: "save_monitor \<Rightarrow> bool \<times> save_monitor" where
  "stop m =
     (if \<not> isMonitoring m then (False, m)
      else
        let m1 = (case watcher m of
                    Some h \<Rightarrow> (release h m)\<lparr>watcher := None\<rparr>
                  | None \<Rightarrow> m);
            m2 = (case checkInterval m1 of
                    Some h \<Rightarrow> (release h m1)\<lparr>checkInterval := None\<rparr>
                  | None \<Rightarrow> m1);
            m3 = (case debounceTimeout m2 of
                    Some h \<Rightarrow> (release h m2)\<lparr>debounceTimeout := None\<rparr>
                  | None \<Rightarrow> m2)
        in (True, emit MonitoringStopped (m3\<lparr>isMonitoring := False\<rparr>)))"

text \<open>
  Both classes have the same \<^verbatim>\<open>calculateFileHash\<close>; \<open>calculateFileHash\<close> above
  stands for either. \<^verbatim>\<open>createBackupIfNeeded\<close> answers \<^verbatim>\<open>true\<close> when a record was made. Its own
  \<^verbatim>\<open>catch\<close> turns an exception into an \<^verbatim>\<open>error\<close> event and \<^verbatim>\<open>false\<close>; the only
  call in its \<^verbatim>\<open>try\<close> that can throw is \<^verbatim>\<open>statSync\<close>, as \<^verbatim>\<open>createBackup\<close> catches
  its own.
\<close>

definition createBackupIfNeeded ::
  "platform \<Rightarrow> clock \<Rightarrow> save_monitor \<Rightarrow> world \<Rightarrow> bool \<times> save_monitor \<times> world" where
  "createBackupIfNeeded P clk m w =
     (case statSync_size P w (saveFilePath m) of
        Inl e \<Rightarrow> (False, emit (ErrorEvent (CreateBackupFailed e)) m, w)
      | Inr stats_size \<Rightarrow>
          if stats_size < 1 then (False, m, w)
          else (case createBackup P (backupManager m) clk (saveFilePath m) w of
                  (Some backupInfo, w') \<Rightarrow>
                    (True,
                     emit (BackupCreated (id_b backupInfo) (timestamp backupInfo)
                             (size_b backupInfo) (hash backupInfo) (saveFilePath m)) m,
                     w')
                | (None, w') \<Rightarrow> (False, m, w')))"

definition checkFileChanges ::
  "platform \<Rightarrow> clock \<Rightarrow> save_monitor \<Rightarrow> world \<Rightarrow> save_monitor \<times> world" where
  "checkFileChanges P clk m w =
     (if \<not> existsSync w (saveFilePath m) then (emit (ErrorEvent SaveFileMissing) m, w)
      else (case calculateFileHash P w (saveFilePath m) of
              Inl e \<Rightarrow> (emit (ErrorEvent (CheckFailed e)) m, w)
            | Inr currentHash \<Rightarrow>
                if Some currentHash \<noteq> lastHash m
                then snd (createBackupIfNeeded P clk (m\<lparr>lastHash := Some currentHash\<rparr>) w)
                else (m, w)))"

text \<open>
  \<^verbatim>\<open>forceBackup\<close> answers \<^verbatim>\<open>true\<close> in both branches of its test of the result.
\<close>

definition forceBackup ::
  "platform \<Rightarrow> clock \<Rightarrow> save_monitor \<Rightarrow> world \<Rightarrow> bool \<times> save_monitor \<times> world" where
  "forceBackup P clk m w =
     (if isMonitoring m
      then (case createBackupIfNeeded P clk m w of
              (backupResult, m', w') \<Rightarrow> (if backupResult then True else True, m', w'))
      else (False, m, w))"

section \<open>Notions used to state the properties\<close>

text \<open>
  The path and the record \<^verbatim>\<open>createBackup\<close> computes for a capture, the array the
  stored ledger holds (\<^verbatim>\<open>getMetadata().backups\<close>), and the files of the archive
  directory other than \<^verbatim>\<open>metadata.json\<close>.
\<close>

definition backupFilePath_of :: "backup_manager \<Rightarrow> clock \<Rightarrow> path \<Rightarrow> path" where
  "backupFilePath_of bm clk sourceFilePath =
     path_join (backupPath bm) (generateBackupId clk @ ''_'' @ path_basename sourceFilePath)"

definition stored_backups :: "platform \<Rightarrow> backup_manager \<Rightarrow> world \<Rightarrow> backup_info list" where
  "stored_backups P bm w = (case getMetadata P bm w of Ledger backups \<Rightarrow> backups | NotLedger \<Rightarrow> [])"

definition new_backup_info :: "platform \<Rightarrow> clock \<Rightarrow> path \<Rightarrow> content \<Rightarrow> backup_info" where
  "new_backup_info P clk sourceFilePath c =
     \<lparr>id_b = generateBackupId clk,
      originalFileName = path_basename sourceFilePath,
      backupFileName = generateBackupId clk @ ''_'' @ path_basename sourceFilePath,
      timestamp = new_Date clk,
      size_b = length (content_bytes P c),
      hash = md5 P (content_bytes P c),
      originalPath = sourceFilePath,
      screenshot = None\<rparr>"



section \<open>Concrete inputs\<close>

text \<open>
  A platform without faults, three with a failing copy, two that refuse every
  removal and one that cannot read the ledger file, a save file
  \<^verbatim>\<open>/g/s.sav\<close>, an archive \<^verbatim>\<open>/b\<close> that holds one backup of the content
  \<^verbatim>\<open>AAAA\<close>, and a monitor that runs. \<open>ex_md5\<close> gives the MD5 digests of the
  contents that are hashed here: the empty file, \<^verbatim>\<open>AAAA\<close> and \<^verbatim>\<open>BBBB\<close> (any
  other content gets the digest of \<^verbatim>\<open>BB\<close>, and none is hashed).
\<close>

definition ex_md5 :: "string \<Rightarrow> string" where
  "ex_md5 bs =
     (if bs = [] then ''d41d8cd98f00b204e9800998ecf8427e''
      else if bs = ''AAAA'' then ''098890dde069e9abad63f19a0d9e1f32''
      else if bs = ''BBBB'' then ''f50881ced34c7d9e6bce100bf33dec60''
      else ''9d3d9048db16a7eee539e93e3618cbe7'')"

definition ex_platform :: platform where
  "ex_platform =
     \<lparr>md5 = ex_md5, stringify = (\<lambda>v. ''{}''), copy_outcome = (\<lambda>src dst. CopyOk),
      read_fails = (\<lambda>p. False), write_fails = (\<lambda>p. False), mkdir_fails = (\<lambda>p. False),
      remove_fails = (\<lambda>p. False)\<rparr>"

definition ex_clock :: clock where
  "ex_clock = \<lparr>new_Date = 2000, Date_now = 2000, Math_random = ''r''\<rparr>"

definition ex_bm :: backup_manager where
  "ex_bm = \<lparr>backupPath = ''/b'', maxBackups = 1\<rparr>"

definition ex_old :: backup_info where
  "ex_old =
     \<lparr>id_b = ''backup_1000_q'', originalFileName = ''s.sav'',
      backupFileName = ''backup_1000_q_s.sav'', timestamp = 1000, size_b = 4,
      hash = ''098890dde069e9abad63f19a0d9e1f32'', originalPath = ''/g/s.sav'',
      screenshot = None\<rparr>"

definition ex_new :: backup_info where
  "ex_new =
     \<lparr>id_b = ''backup_2000_r'', originalFileName = ''s.sav'',
      backupFileName = ''backup_2000_r_s.sav'', timestamp = 2000, size_b = 4,
      hash = ''098890dde069e9abad63f19a0d9e1f32'', originalPath = ''/g/s.sav'',
      screenshot = None\<rparr>"

definition ex_world :: "string \<Rightarrow> world" where
  "ex_world save =
     \<lparr>files = [''/g/s.sav'' \<mapsto> Bytes save,
               ''/b/metadata.json'' \<mapsto> JsonText (Ledger [ex_old]),
               ''/b/backup_1000_q_s.sav'' \<mapsto> Bytes ''AAAA'']\<rparr>"

definition ex_bm2 :: backup_manager where
  "ex_bm2 = \<lparr>backupPath = ''/b'', maxBackups = 2\<rparr>"

definition ex_bm50 :: backup_manager where
  "ex_bm50 = \<lparr>backupPath = ''/b'', maxBackups = 50\<rparr>"

definition ex_platform_copy_refused :: platform where
  "ex_platform_copy_refused = ex_platform\<lparr>copy_outcome := (\<lambda>src dst. CopyFailsClean)\<rparr>"

definition ex_platform_target_broken :: platform where
  "ex_platform_target_broken =
     ex_platform\<lparr>copy_outcome :=
       (\<lambda>src dst. if dst = ''/g/s.sav''
                   then (if src = ''/b/backup_1000_q_s.sav''
                         then CopyFailsLeaving (Some (Bytes ''AA'')) else CopyFailsClean)
                   else CopyOk)\<rparr>"

definition ex_platform_restore_fails :: platform where
  "ex_platform_restore_fails =
     ex_platform\<lparr>copy_outcome :=
       (\<lambda>src dst. if src = ''/b/backup_1000_q_s.sav''
                   then CopyFailsLeaving (Some (Bytes ''AA'')) else CopyOk)\<rparr>"

definition ex_platform_remove_refused :: platform where
  "ex_platform_remove_refused = ex_platform\<lparr>remove_fails := (\<lambda>p. True)\<rparr>"

definition ex_platform_sibling_stuck :: platform where
  "ex_platform_sibling_stuck = ex_platform_restore_fails\<lparr>remove_fails := (\<lambda>p. True)\<rparr>"

definition ex_platform_ledger_unreadable :: platform where
  "ex_platform_ledger_unreadable =
     ex_platform\<lparr>read_fails := (\<lambda>p. p = ''/b/metadata.json'')\<rparr>"

definition ex_monitor :: save_monitor where
  "ex_monitor =
     (new_SaveMonitor ''/g/s.sav'' ex_bm)
       \<lparr>watcher := Some 1, isMonitoring := True,
        lastHash := Some ''098890dde069e9abad63f19a0d9e1f32'',
        checkInterval := Some 2, debounceTimeout := Some 3, active := {1, 2, 3}\<rparr>"

definition ex_world_empty :: world where
  "ex_world_empty = \<lparr>files = [''/g/s.sav'' \<mapsto> Bytes []]\<rparr>"

definition ex_world_corrupt :: world where
  "ex_world_corrupt =
     \<lparr>files = [''/g/s.sav'' \<mapsto> Bytes ''AAAA'', ''/b/metadata.json'' \<mapsto> Bytes ''BB'']\<rparr>"


section \<open>Facts about the file operations\<close>

lemma files_removeSync:
  "files (snd (removeSync P q w)) p = (if p = q \<and> \<not> remove_fails P q then None else files w p)"
  by (simp add: removeSync_def)

lemma files_remove_backup_file:
  "files (remove_backup_file P bm b w) p =
     (if p = path_join (backupPath bm) (backupFileName b) \<and> \<not> remove_fails P p then None
      else files w p)"
  by (auto simp: remove_backup_file_def removeSync_def existsSync_def Let_def)

lemma files_fold_remove_backup_file:
  "files (fold (remove_backup_file P bm) rs w) p =
     (if p \<in> (\<lambda>r. path_join (backupPath bm) (backupFileName r)) ` set rs \<and> \<not> remove_fails P p
      then None else files w p)"
  by (induction rs arbitrary: w) (auto simp: files_remove_backup_file)

lemma sorted_take_drop_le:
  assumes "sorted (map f xs)" "a \<in> set (take n xs)" "b \<in> set (drop n xs)"
  shows "f a \<le> f b"
proof -
  have "sorted (map f (take n xs) @ map f (drop n xs))"
    using assms(1) by (simp flip: map_append)
  then show ?thesis
    using assms(2,3) by (auto simp: sorted_append)
qed

lemma newest_first_take_drop:
  assumes "k \<in> set (take n (sort_newest_first bs))" "r \<in> set (drop n (sort_newest_first bs))"
  shows "timestamp r \<le> timestamp k"
proof -
  have "sorted (map (\<lambda>b. - timestamp b) (sort_newest_first bs))"
    by (simp add: sort_newest_first_def)
  from sorted_take_drop_le [OF this assms] show ?thesis by simp
qed

lemma mset_sort_newest_first: "mset (sort_newest_first bs) = mset bs"
  by (simp add: sort_newest_first_def)

lemma backupFilePath_neq_metadataFile: "backupFilePath_of bm clk src \<noteq> metadataFile bm"
  by (simp add: backupFilePath_of_def metadataFile_def path_join_def generateBackupId_def)

lemma length_cleanupOldBackups:
  "length (fst (cleanupOldBackups P bm backups w)) = min (length backups) (maxBackups bm)"
  by (simp add: cleanupOldBackups_def Let_def sort_newest_first_def)


lemma getMetadata_cong:
  "files w' (metadataFile bm) = files w (metadataFile bm) \<Longrightarrow>
   getMetadata P bm w' = getMetadata P bm w"
  by (simp add: getMetadata_def existsSync_def readJsonSync_def)

lemma getMetadata_written:
  "files w (metadataFile bm) = Some (JsonText v) \<Longrightarrow> \<not> read_fails P (metadataFile bm) \<Longrightarrow>
   getMetadata P bm w = v"
  by (simp add: getMetadata_def existsSync_def readJsonSync_def)

lemma ensureBackupDir_Inr:
  assumes "ensureBackupDir P bm w = (Inr u, w1)"
  shows "getMetadata P bm w1 = getMetadata P bm w"
    and "\<And>p. p \<noteq> metadataFile bm \<Longrightarrow> files w1 p = files w p"
    and "\<And>p. files w p \<noteq> None \<Longrightarrow> files w1 p = files w p"
  using assms
  by (auto simp: ensureBackupDir_def writeJsonSync_def getMetadata_def existsSync_def
        readJsonSync_def split: if_splits)

lemma copy_Inr:
  assumes "copy P src dst w = (Inr u, w')"
  shows "\<exists>c. files w src = Some c \<and> w' = w\<lparr>files := (files w)(dst \<mapsto> c)\<rparr>"
  using assms by (auto simp: copy_def split: option.splits copy_outcome.splits)

text \<open>What a call of \<open>record_backup\<close> that returns a record has done.\<close>

lemma record_backup_Some:
  assumes "record_backup P bm backupInfo backupFilePath backups w = (Some r, w')"
  shows "r = backupInfo"
    and "\<not> read_fails P (metadataFile bm)"
    and "w' = (if backups \<noteq> [] \<and> hash (last backups) = hash backupInfo
               then (\<lambda>x. snd (removeSync P backupFilePath x)) else (\<lambda>x. x))
              ((snd (cleanupOldBackups P bm (backups @ [backupInfo]) w))
                 \<lparr>files := (files (snd (cleanupOldBackups P bm (backups @ [backupInfo]) w)))
                    (metadataFile bm \<mapsto>
                       JsonText (Ledger (fst (cleanupOldBackups P bm (backups @ [backupInfo]) w))))\<rparr>)"
  using assms
  by (auto simp: record_backup_def Let_def writeJsonSync_def existsSync_def readJsonSync_def
        split: prod.splits if_splits sum.splits json.splits)

text \<open>
  A call of \<open>createBackup\<close> that returns a record found the source, copied it to
  the new archive path, read the ledger as it was before the call, and went through
  \<open>record_backup\<close>.
\<close>

lemma createBackup_Some:
  assumes "createBackup P bm clk src w = (Some info, w')"
  shows "\<exists>c w2 backups.
           files w src = Some c \<and>
           files w2 (backupFilePath_of bm clk src) = Some c \<and>
           (\<forall>p. p \<noteq> metadataFile bm \<and> p \<noteq> backupFilePath_of bm clk src
                 \<longrightarrow> files w2 p = files w p) \<and>
           getMetadata P bm w = Ledger backups \<and>
           record_backup P bm (new_backup_info P clk src c) (backupFilePath_of bm clk src)
             backups w2 = (Some info, w')"
proof -
  from assms obtain c where c: "files w src = Some c"
    by (auto simp: createBackup_def existsSync_def split: if_splits)
  from assms c obtain w1 u where e: "ensureBackupDir P bm w = (Inr u, w1)"
    by (auto simp: createBackup_def existsSync_def statSync_size_def Let_def
          split: if_splits prod.splits sum.splits)
  from assms c e obtain w2 u' where
    cp: "copy P src (backupFilePath_of bm clk src) w1 = (Inr u', w2)"
    by (auto simp: createBackup_def existsSync_def statSync_size_def Let_def
          backupFilePath_of_def split: if_splits prod.splits sum.splits)
  have c1: "files w1 src = Some c"
    using ensureBackupDir_Inr(3) [OF e, of src] c by simp
  from copy_Inr [OF cp] c1
  have w2: "w2 = w1\<lparr>files := (files w1)(backupFilePath_of bm clk src \<mapsto> c)\<rparr>"
    by auto
  have c2: "files w2 src = Some c"
    using c1 w2 by simp
  have h: "calculateFileHash P w2 src = Inr (md5 P (content_bytes P c))"
    using assms c e cp c2
    by (auto simp: createBackup_def existsSync_def statSync_size_def Let_def
          backupFilePath_of_def calculateFileHash_def split: if_splits prod.splits sum.splits)
  have g: "getMetadata P bm w2 = getMetadata P bm w"
    using ensureBackupDir_Inr(1) [OF e] getMetadata_cong [of w2 bm w1 P] w2
      backupFilePath_neq_metadataFile [of bm clk src]
    by simp
  from assms c e cp h obtain backups where b: "getMetadata P bm w2 = Ledger backups"
    and r: "record_backup P bm (new_backup_info P clk src c) (backupFilePath_of bm clk src)
              backups w2 = (Some info, w')"
    by (auto simp: createBackup_def existsSync_def statSync_size_def Let_def
          backupFilePath_of_def new_backup_info_def
          split: if_splits prod.splits sum.splits json.splits)
  have f: "\<forall>p. p \<noteq> metadataFile bm \<and> p \<noteq> backupFilePath_of bm clk src
             \<longrightarrow> files w2 p = files w p"
    using ensureBackupDir_Inr(2) [OF e] w2 by simp
  have fb: "files w2 (backupFilePath_of bm clk src) = Some c"
    using w2 by simp
  have b': "getMetadata P bm w = Ledger backups"
    using g b by simp
  show ?thesis
    using c fb f b' r by blast
qed

lemma createBackup_stored:
  assumes "createBackup P bm clk src w = (Some info, w')"
  shows "files w' (metadataFile bm) = Some (JsonText (Ledger (stored_backups P bm w')))"
    and "stored_backups P bm w' =
           fst (cleanupOldBackups P bm (stored_backups P bm w @ [info]) wa)"
proof -
  from createBackup_Some [OF assms] obtain c w2 backups where
    g: "getMetadata P bm w = Ledger backups" and
    r: "record_backup P bm (new_backup_info P clk src c) (backupFilePath_of bm clk src)
          backups w2 = (Some info, w')"
    by blast
  note rb = record_backup_Some [OF r]
  let ?kept = "fst (cleanupOldBackups P bm (backups @ [info]) w2)"
  have m: "files w' (metadataFile bm) = Some (JsonText (Ledger ?kept))"
    using rb(1,3) backupFilePath_neq_metadataFile [of bm clk src]
    by (auto simp: files_removeSync)
  have s: "stored_backups P bm w' = ?kept"
    using getMetadata_written [OF m rb(2)] by (simp add: stored_backups_def)
  have indep: "fst (cleanupOldBackups P bm bs w2) = fst (cleanupOldBackups P bm bs wa)" for bs
    by (simp add: cleanupOldBackups_def Let_def)
  show "files w' (metadataFile bm) = Some (JsonText (Ledger (stored_backups P bm w')))"
    using m s by simp
  show "stored_backups P bm w' = fst (cleanupOldBackups P bm (stored_backups P bm w @ [info]) wa)"
    using s g indep by (simp add: stored_backups_def)
qed


lemma stop_not_running: "\<not> isMonitoring m \<Longrightarrow> stop m = (False, m)"
  by (simp add: stop_def)

lemma stop_stopped: "\<not> isMonitoring (snd (stop m))"
  by (simp add: stop_def emit_def Let_def split: option.splits)

lemma createBackupIfNeeded_keeps:
  "lastHash (fst (snd (createBackupIfNeeded P clk m w))) = lastHash m"
  "saveFilePath (fst (snd (createBackupIfNeeded P clk m w))) = saveFilePath m"
  by (simp_all add: createBackupIfNeeded_def emit_def
        split: sum.splits prod.splits option.splits)

lemma createBackupIfNeeded_lastHash:
  "createBackupIfNeeded P clk (m\<lparr>lastHash := h\<rparr>) w =
     (case createBackupIfNeeded P clk m w of (r, m', w') \<Rightarrow> (r, m'\<lparr>lastHash := h\<rparr>, w'))"
  by (simp add: createBackupIfNeeded_def emit_def split: sum.splits prod.splits option.splits)

subsection \<open>The concrete inputs, evaluated\<close>

lemma ex_id: "generateBackupId ex_clock = ''backup_2000_r''"
  by (simp add: generateBackupId_def ex_clock_def decimal.simps digit_char_def)

lemma ex_new_Date: "new_Date ex_clock = 2000"
  by (simp add: ex_clock_def)

lemma ex_basename: "path_basename ''/g/s.sav'' = ''s.sav''"
  by (simp add: path_basename_def)

lemmas ex_simps =
  createBackup_def ex_id ex_basename Let_def existsSync_def statSync_size_def
  ex_world_def ex_platform_def ex_bm_def ex_bm2_def ex_bm50_def
  ensureBackupDir_def metadataFile_def path_join_def copy_def calculateFileHash_def
  content_bytes_def ex_md5_def getMetadata_def readJsonSync_def record_backup_def
  cleanupOldBackups_def sort_newest_first_def ex_old_def ex_new_def ex_new_Date
  remove_backup_file_def removeSync_def writeJsonSync_def stored_backups_def
  ex_platform_copy_refused_def ex_platform_target_broken_def ex_platform_restore_fails_def
  ex_platform_remove_refused_def ex_platform_sibling_stuck_def
  ex_platform_ledger_unreadable_def
  ex_world_empty_def ex_world_corrupt_def
  eval_nat_numeral

section \<open>Retention\<close>

text \<open>
  C1, as stated: eviction deletes the archive file of every record it removes from
  the ledger. Here the file system refuses to remove the file of the older record:
  the record leaves the ledger all the same, and its file is still there.
\<close>

theorem cleanupOldBackups_retention_counterexample:
  "maxBackups ex_bm < length [ex_old, ex_new] \<and>
   fst (cleanupOldBackups ex_platform_remove_refused ex_bm [ex_old, ex_new] (ex_world ''AAAA''))
     = [ex_new] \<and>
   files (snd (cleanupOldBackups ex_platform_remove_refused ex_bm [ex_old, ex_new]
                 (ex_world ''AAAA'')))
     (path_join (backupPath ex_bm) (backupFileName ex_old)) = Some (Bytes ''AAAA'')"
  by (simp add: ex_simps)

text \<open>
  C1, amended. \<^verbatim>\<open>cleanupOldBackups\<close>, for every ledger and every ceiling
  \<open>maxBackups\<close>: when the ledger holds at most \<open>maxBackups\<close> records nothing
  changes. Otherwise exactly \<open>maxBackups\<close> records stay, the others (\<open>removed\<close>)
  leave the ledger, and no record that leaves is newer than one that stays; the
  archive file of every record that leaves is gone afterwards unless the file system
  refuses its removal, and every other file, and every file whose removal is
  refused, is as it was. In both cases the ledger holds at most \<open>maxBackups\<close>
  records afterwards.
\<close>

theorem cleanupOldBackups_retention:
  "(length backups \<le> maxBackups bm \<longrightarrow> cleanupOldBackups P bm backups w = (backups, w)) \<and>
   (maxBackups bm < length backups \<longrightarrow>
      (\<exists>removed.
         mset backups = mset (fst (cleanupOldBackups P bm backups w)) + mset removed \<and>
         length (fst (cleanupOldBackups P bm backups w)) = maxBackups bm \<and>
         (\<forall>k \<in> set (fst (cleanupOldBackups P bm backups w)). \<forall>r \<in> set removed.
            timestamp r \<le> timestamp k) \<and>
         (\<forall>r \<in> set removed.
            \<not> remove_fails P (path_join (backupPath bm) (backupFileName r)) \<longrightarrow>
            files (snd (cleanupOldBackups P bm backups w))
              (path_join (backupPath bm) (backupFileName r)) = None) \<and>
         (\<forall>p. p \<notin> (\<lambda>r. path_join (backupPath bm) (backupFileName r)) ` set removed \<or>
              remove_fails P p \<longrightarrow>
            files (snd (cleanupOldBackups P bm backups w)) p = files w p))) \<and>
   length (fst (cleanupOldBackups P bm backups w)) \<le> maxBackups bm"
proof (intro conjI impI)
  assume "length backups \<le> maxBackups bm"
  then show "cleanupOldBackups P bm backups w = (backups, w)"
    by (simp add: cleanupOldBackups_def)
next
  assume over: "maxBackups bm < length backups"
  let ?s = "sort_newest_first backups"
  let ?n = "maxBackups bm"
  have res: "cleanupOldBackups P bm backups w =
               (take ?n ?s, fold (remove_backup_file P bm) (drop ?n ?s) w)"
    using over by (simp add: cleanupOldBackups_def Let_def)
  have m: "mset backups = mset (take ?n ?s) + mset (drop ?n ?s)"
    by (metis append_take_drop_id mset_append mset_sort_newest_first)
  have l: "length (take ?n ?s) = ?n"
    using over by (simp add: sort_newest_first_def)
  show "\<exists>removed.
         mset backups = mset (fst (cleanupOldBackups P bm backups w)) + mset removed \<and>
         length (fst (cleanupOldBackups P bm backups w)) = maxBackups bm \<and>
         (\<forall>k \<in> set (fst (cleanupOldBackups P bm backups w)). \<forall>r \<in> set removed.
            timestamp r \<le> timestamp k) \<and>
         (\<forall>r \<in> set removed.
            \<not> remove_fails P (path_join (backupPath bm) (backupFileName r)) \<longrightarrow>
            files (snd (cleanupOldBackups P bm backups w))
              (path_join (backupPath bm) (backupFileName r)) = None) \<and>
         (\<forall>p. p \<notin> (\<lambda>r. path_join (backupPath bm) (backupFileName r)) ` set removed \<or>
              remove_fails P p \<longrightarrow>
            files (snd (cleanupOldBackups P bm backups w)) p = files w p)"
    unfolding res fst_conv snd_conv
    apply (rule exI [of _ "drop ?n ?s"])
    using m l by (auto simp: files_fold_remove_backup_file newest_first_take_drop)
next
  show "length (fst (cleanupOldBackups P bm backups w)) \<le> maxBackups bm"
    by (simp add: length_cleanupOldBackups)
qed

text \<open>
  With a ceiling of one and the ledger \<open>[ex_old, ex_new]\<close>, on a platform that
  refuses nothing, the newer record stays and the file of the older one is removed;
  the ledger \<open>[ex_new]\<close> is left as it is.
\<close>

theorem cleanupOldBackups_retention_witness:
  "maxBackups ex_bm < length [ex_old, ex_new] \<and>
   \<not> remove_fails ex_platform (path_join (backupPath ex_bm) (backupFileName ex_old)) \<and>
   fst (cleanupOldBackups ex_platform ex_bm [ex_old, ex_new] (ex_world ''AAAA'')) = [ex_new] \<and>
   files (snd (cleanupOldBackups ex_platform ex_bm [ex_old, ex_new] (ex_world ''AAAA'')))
     (path_join (backupPath ex_bm) (backupFileName ex_old)) = None \<and>
   files (snd (cleanupOldBackups ex_platform ex_bm [ex_old, ex_new] (ex_world ''AAAA'')))
     ''/g/s.sav'' = Some (Bytes ''AAAA'') \<and>
   length [ex_new] \<le> maxBackups ex_bm \<and>
   cleanupOldBackups ex_platform ex_bm [ex_new] (ex_world ''AAAA'') = ([ex_new], ex_world ''AAAA'')"
  using cleanupOldBackups_retention [of "[ex_old, ex_new]" ex_bm ex_platform "ex_world ''AAAA''"]
    cleanupOldBackups_retention [of "[ex_new]" ex_bm ex_platform "ex_world ''AAAA''"]
  by (simp add: ex_simps)

text \<open>
  C10. After every \<^verbatim>\<open>createBackup\<close> that returns a record, \<^verbatim>\<open>metadata.json\<close>
  holds the ledger that was written, and that ledger has at most \<open>maxBackups\<close>
  records: eviction runs between the append and the write.
\<close>

theorem createBackup_retention_bound:
  assumes "createBackup P bm clk src w = (Some info, w')"
  shows "files w' (metadataFile bm) = Some (JsonText (Ledger (stored_backups P bm w'))) \<and>
         length (stored_backups P bm w') \<le> maxBackups bm"
  using createBackup_stored(1) [OF assms] createBackup_stored(2) [OF assms, where wa = w]
  by (simp add: length_cleanupOldBackups)

theorem createBackup_retention_bound_witness:
  "fst (createBackup ex_platform ex_bm ex_clock ''/g/s.sav'' (ex_world ''BBBB'')) \<noteq> None \<and>
   length (stored_backups ex_platform ex_bm
             (snd (createBackup ex_platform ex_bm ex_clock ''/g/s.sav'' (ex_world ''BBBB''))))
     \<le> maxBackups ex_bm"
proof -
  let ?r = "createBackup ex_platform ex_bm ex_clock ''/g/s.sav'' (ex_world ''BBBB'')"
  have n: "fst ?r \<noteq> None"
    by (simp add: ex_simps)
  then obtain info where f: "fst ?r = Some info"
    by blast
  then have a1: "?r = (Some info, snd ?r)"
    by (metis prod.collapse)
  show ?thesis
    using createBackup_retention_bound [OF a1] n by simp
qed

section \<open>Duplicates\<close>




section \<open>Restore\<close>

text \<open>
  C4, as stated: when the copy of the archive over an existing target fails, the
  target holds afterwards what it held before, the temporary sibling having been
  copied back and removed. Here that copy fails after writing a part of the archive,
  and the copy of the temporary sibling back over the target fails too:
  \<^verbatim>\<open>restoreBackup\<close> answers \<^verbatim>\<open>false\<close>, the target holds the part, and the
  sibling is still there. And where the copy back succeeds but the file system
  refuses removals, the target is restored and the sibling is still there.
\<close>

theorem restoreBackup_atomicity_counterexample:
  "stored_backups ex_platform_target_broken ex_bm (ex_world ''BBBB'') = [ex_old] \<and>
   existsSync (ex_world ''BBBB'') (path_join (backupPath ex_bm) (backupFileName ex_old)) \<and>
   existsSync (ex_world ''BBBB'') ''/g/s.sav'' \<and>
   copy_outcome ex_platform_target_broken
      (path_join (backupPath ex_bm) (backupFileName ex_old)) ''/g/s.sav'' \<noteq> CopyOk \<and>
   fst (restoreBackup ex_platform_target_broken ex_bm (id_b ex_old) ''/g/s.sav'' (ex_world ''BBBB''))
     = False \<and>
   files (ex_world ''BBBB'') ''/g/s.sav'' = Some (Bytes ''BBBB'') \<and>
   files (snd (restoreBackup ex_platform_target_broken ex_bm (id_b ex_old) ''/g/s.sav''
                 (ex_world ''BBBB''))) ''/g/s.sav'' = Some (Bytes ''AA'') \<and>
   files (snd (restoreBackup ex_platform_target_broken ex_bm (id_b ex_old) ''/g/s.sav''
                 (ex_world ''BBBB''))) ''/g/s.sav.temp_backup'' = Some (Bytes ''BBBB'') \<and>
   copy_outcome ex_platform_sibling_stuck
      (path_join (backupPath ex_bm) (backupFileName ex_old)) ''/g/s.sav'' \<noteq> CopyOk \<and>
   fst (restoreBackup ex_platform_sibling_stuck ex_bm (id_b ex_old) ''/g/s.sav'' (ex_world ''BBBB''))
     = False \<and>
   files (snd (restoreBackup ex_platform_sibling_stuck ex_bm (id_b ex_old) ''/g/s.sav''
                 (ex_world ''BBBB''))) ''/g/s.sav'' = Some (Bytes ''BBBB'') \<and>
   files (snd (restoreBackup ex_platform_sibling_stuck ex_bm (id_b ex_old) ''/g/s.sav''
                 (ex_world ''BBBB''))) ''/g/s.sav.temp_backup'' = Some (Bytes ''BBBB'')"
  by (simp add: ex_simps restoreBackup_def restore_over_def restore_undo_def)

text \<open>
  C4, amended. For every restore of a record of the ledger whose archive file is
  present, onto a target that exists: when the copy of the target to its temporary
  sibling succeeds, the copy of the archive over the target fails (whatever it leaves
  there), and the copy of the sibling back over the target succeeds, then
  \<^verbatim>\<open>restoreBackup\<close> answers \<^verbatim>\<open>false\<close> and the target holds what it held before
  the call; the sibling is removed unless the file system refuses its removal.
\<close>

theorem restoreBackup_rollback:
  assumes "find (\<lambda>b. id_b b = backupId) (stored_backups P bm w) = Some backup"
      and "existsSync w (path_join (backupPath bm) (backupFileName backup))"
      and "files w targetPath = Some c0"
      and "copy_outcome P targetPath (targetPath @ ''.temp_backup'') = CopyOk"
      and "copy_outcome P (path_join (backupPath bm) (backupFileName backup)) targetPath \<noteq> CopyOk"
      and "copy_outcome P (targetPath @ ''.temp_backup'') targetPath = CopyOk"
  shows "fst (restoreBackup P bm backupId targetPath w) = False \<and>
         files (snd (restoreBackup P bm backupId targetPath w)) targetPath = Some c0 \<and>
         (\<not> remove_fails P (targetPath @ ''.temp_backup'') \<longrightarrow>
            files (snd (restoreBackup P bm backupId targetPath w))
              (targetPath @ ''.temp_backup'') = None)"
proof -
  let ?a = "path_join (backupPath bm) (backupFileName backup)"
  let ?t = "targetPath @ ''.temp_backup''"
  from assms(1) obtain backups where g: "getMetadata P bm w = Ledger backups"
    and f: "find (\<lambda>b. id_b b = backupId) backups = Some backup"
    by (auto simp: stored_backups_def split: json.splits)
  have r: "restoreBackup P bm backupId targetPath w = restore_over P ?a targetPath w"
    using g f assms(2,3) by (auto simp: restoreBackup_def existsSync_def Let_def)
  obtain ca where ca: "files w ?a = Some ca"
    using assms(2) by (auto simp: existsSync_def)
  let ?w1 = "w\<lparr>files := (files w)(?t \<mapsto> c0)\<rparr>"
  have c1: "copy P targetPath ?t w = (Inr (), ?w1)"
    using assms(3,4) by (simp add: copy_def)
  have a1: "files ?w1 ?a \<noteq> None"
    using ca by simp
  have "\<exists>e w2. copy P ?a targetPath ?w1 = (Inl e, w2) \<and> files w2 ?t = Some c0"
  proof -
    from a1 obtain y where y: "files ?w1 ?a = Some y" by blast
    show ?thesis
    proof (cases "copy_outcome P ?a targetPath")
      case CopyOk
      with assms(5) show ?thesis by simp
    next
      case CopyFailsClean
      with y show ?thesis by (simp add: copy_def)
    next
      case (CopyFailsLeaving d)
      with y show ?thesis by (simp add: copy_def)
    qed
  qed
  then obtain e w2 where c2: "copy P ?a targetPath ?w1 = (Inl e, w2)"
    and t2: "files w2 ?t = Some c0"
    by blast
  have c3: "copy P ?t targetPath w2 = (Inr (), w2\<lparr>files := (files w2)(targetPath \<mapsto> c0)\<rparr>)"
    using t2 assms(6) by (simp add: copy_def)
  have "restore_over P ?a targetPath w =
          (False, snd (removeSync P ?t (w2\<lparr>files := (files w2)(targetPath \<mapsto> c0)\<rparr>)))"
    using c1 c2 c3 by (simp add: restore_over_def restore_undo_def Let_def split: prod.splits sum.splits)
  with r show ?thesis
    by (simp add: files_removeSync)
qed

theorem restoreBackup_rollback_witness:
  "find (\<lambda>b. id_b b = id_b ex_old)
     (stored_backups ex_platform_restore_fails ex_bm (ex_world ''BBBB'')) = Some ex_old \<and>
   existsSync (ex_world ''BBBB'') (path_join (backupPath ex_bm) (backupFileName ex_old)) \<and>
   files (ex_world ''BBBB'') ''/g/s.sav'' = Some (Bytes ''BBBB'') \<and>
   copy_outcome ex_platform_restore_fails ''/g/s.sav'' (''/g/s.sav'' @ ''.temp_backup'') = CopyOk \<and>
   copy_outcome ex_platform_restore_fails
      (path_join (backupPath ex_bm) (backupFileName ex_old)) ''/g/s.sav'' \<noteq> CopyOk \<and>
   copy_outcome ex_platform_restore_fails (''/g/s.sav'' @ ''.temp_backup'') ''/g/s.sav'' = CopyOk \<and>
   \<not> remove_fails ex_platform_restore_fails (''/g/s.sav'' @ ''.temp_backup'') \<and>
   fst (restoreBackup ex_platform_restore_fails ex_bm (id_b ex_old) ''/g/s.sav'' (ex_world ''BBBB''))
     = False \<and>
   files (snd (restoreBackup ex_platform_restore_fails ex_bm (id_b ex_old) ''/g/s.sav''
                 (ex_world ''BBBB''))) ''/g/s.sav'' = Some (Bytes ''BBBB'') \<and>
   files (snd (restoreBackup ex_platform_restore_fails ex_bm (id_b ex_old) ''/g/s.sav''
                 (ex_world ''BBBB''))) (''/g/s.sav'' @ ''.temp_backup'') = None"
proof -
  have a1: "find (\<lambda>b. id_b b = id_b ex_old)
              (stored_backups ex_platform_restore_fails ex_bm (ex_world ''BBBB'')) = Some ex_old"
    by (simp add: ex_simps)
  have a2: "existsSync (ex_world ''BBBB'') (path_join (backupPath ex_bm) (backupFileName ex_old))"
    by (simp add: ex_simps)
  have a3: "files (ex_world ''BBBB'') ''/g/s.sav'' = Some (Bytes ''BBBB'')"
    by (simp add: ex_simps)
  have a4: "copy_outcome ex_platform_restore_fails ''/g/s.sav'' (''/g/s.sav'' @ ''.temp_backup'')
              = CopyOk"
    by (simp add: ex_simps)
  have a5: "copy_outcome ex_platform_restore_fails
              (path_join (backupPath ex_bm) (backupFileName ex_old)) ''/g/s.sav'' \<noteq> CopyOk"
    by (simp add: ex_simps)
  have a6: "copy_outcome ex_platform_restore_fails (''/g/s.sav'' @ ''.temp_backup'') ''/g/s.sav''
              = CopyOk"
    by (simp add: ex_simps)
  have a7: "\<not> remove_fails ex_platform_restore_fails (''/g/s.sav'' @ ''.temp_backup'')"
    by (simp add: ex_simps)
  show ?thesis
    using restoreBackup_rollback [OF a1 a2 a3 a4 a5 a6] a1 a2 a3 a4 a5 a6 a7 by simp
qed

section \<open>The ledger file\<close>

text \<open>
  C8, as stated: the empty ledger stands in for a ledger file that is absent,
  unreadable or unparseable, so that no operation of the backup store fails because
  of it. Here \<^verbatim>\<open>metadata.json\<close> holds one record and cannot be read; the source is
  there and nothing else is refused. \<^verbatim>\<open>getMetadata\<close> answers the empty ledger, but
  \<^verbatim>\<open>createBackup\<close> returns \<^verbatim>\<open>null\<close>: after it has copied the source and written
  a ledger of the new record alone, it reads \<^verbatim>\<open>metadata.json\<close> again, and that
  read throws.
\<close>

theorem getMetadata_recovers_counterexample:
  "read_fails ex_platform_ledger_unreadable (metadataFile ex_bm2) \<and>
   files (ex_world ''BBBB'') (metadataFile ex_bm2) = Some (JsonText (Ledger [ex_old])) \<and>
   getMetadata ex_platform_ledger_unreadable ex_bm2 (ex_world ''BBBB'') = Ledger [] \<and>
   existsSync (ex_world ''BBBB'') ''/g/s.sav'' \<and>
   fst (createBackup ex_platform_ledger_unreadable ex_bm2 ex_clock ''/g/s.sav'' (ex_world ''BBBB''))
     = None \<and>
   files (snd (createBackup ex_platform_ledger_unreadable ex_bm2 ex_clock ''/g/s.sav''
                 (ex_world ''BBBB''))) ''/b/backup_2000_r_s.sav'' = Some (Bytes ''BBBB'')"
  by (simp add: ex_simps)

text \<open>
  C8, amended. Whatever the archive directory holds: when \<^verbatim>\<open>metadata.json\<close> is
  absent, or cannot be read, or does not parse, \<^verbatim>\<open>getMetadata\<close> answers the empty
  ledger (it cannot raise), and the operations that only read the ledger go on with
  it: the list of backups is empty, \<^verbatim>\<open>getBackupInfo\<close> answers \<^verbatim>\<open>null\<close>, the
  statistics are those of no backups, and \<^verbatim>\<open>restoreBackup\<close> and \<^verbatim>\<open>deleteBackup\<close>
  answer \<^verbatim>\<open>false\<close>, as for a record that is not there, and change nothing.
  \<^verbatim>\<open>createBackup\<close> is not stopped by a ledger that is absent or does not parse:
  when the source is there and the file system refuses none of the steps it takes,
  it returns a record. While \<^verbatim>\<open>metadata.json\<close> cannot be read, \<^verbatim>\<open>createBackup\<close>
  returns \<^verbatim>\<open>null\<close>.
\<close>

theorem getMetadata_recovers:
  "((\<not> existsSync w (metadataFile bm) \<or> read_fails P (metadataFile bm) \<or>
      (\<exists>bs. files w (metadataFile bm) = Some (Bytes bs)))
     \<longrightarrow> getMetadata P bm w = Ledger [] \<and> getBackupList P bm w = [] \<and>
         getBackupInfo P bm backupId w = Inr None \<and>
         getBackupStats P bm w =
           Inr \<lparr>totalBackups = 0, totalSize = 0, oldestBackup = None, newestBackup = None\<rparr> \<and>
         restoreBackup P bm backupId targetPath w = (False, w) \<and>
         deleteBackup P bm backupId w = (False, w)) \<and>
   ((\<not> existsSync w (metadataFile bm) \<or> (\<exists>bs. files w (metadataFile bm) = Some (Bytes bs))) \<and>
      existsSync w src \<and> \<not> read_fails P src \<and>
      copy_outcome P src (backupFilePath_of bm clk src) = CopyOk \<and>
      \<not> mkdir_fails P (backupPath bm) \<and> \<not> write_fails P (metadataFile bm) \<and>
      \<not> read_fails P (metadataFile bm)
     \<longrightarrow> fst (createBackup P bm clk src w) \<noteq> None) \<and>
   (read_fails P (metadataFile bm) \<longrightarrow> fst (createBackup P bm clk src w) = None)"
proof (intro conjI impI)
  assume "\<not> existsSync w (metadataFile bm) \<or> read_fails P (metadataFile bm) \<or>
           (\<exists>bs. files w (metadataFile bm) = Some (Bytes bs))"
  then show g: "getMetadata P bm w = Ledger []"
    by (auto simp: getMetadata_def readJsonSync_def existsSync_def split: option.splits)
  then show "getBackupList P bm w = []"
    by (simp add: getBackupList_def sort_newest_first_def)
  from g show "getBackupInfo P bm backupId w = Inr None"
    by (simp add: getBackupInfo_def)
  from g show "getBackupStats P bm w =
           Inr \<lparr>totalBackups = 0, totalSize = 0, oldestBackup = None, newestBackup = None\<rparr>"
    by (simp add: getBackupStats_def)
  from g show "restoreBackup P bm backupId targetPath w = (False, w)"
    by (simp add: restoreBackup_def)
  from g show "deleteBackup P bm backupId w = (False, w)"
    by (simp add: deleteBackup_def)
next
  assume a: "(\<not> existsSync w (metadataFile bm) \<or>
               (\<exists>bs. files w (metadataFile bm) = Some (Bytes bs))) \<and>
      existsSync w src \<and> \<not> read_fails P src \<and>
      copy_outcome P src (backupFilePath_of bm clk src) = CopyOk \<and>
      \<not> mkdir_fails P (backupPath bm) \<and> \<not> write_fails P (metadataFile bm) \<and>
      \<not> read_fails P (metadataFile bm)"
  then obtain c where c: "files w src = Some c"
    by (auto simp: existsSync_def)
  have "\<exists>w1. ensureBackupDir P bm w = (Inr (), w1)"
    using a by (simp add: ensureBackupDir_def writeJsonSync_def)
  then obtain w1 where e: "ensureBackupDir P bm w = (Inr (), w1)" ..
  have g1: "getMetadata P bm w1 = Ledger []" and c1: "files w1 src = Some c"
    using ensureBackupDir_Inr(1,3) [OF e] a c
    by (auto simp: getMetadata_def readJsonSync_def existsSync_def split: option.splits)
  let ?b = "backupFilePath_of bm clk src"
  let ?w2 = "w1\<lparr>files := (files w1)(?b \<mapsto> c)\<rparr>"
  have cp: "copy P src ?b w1 = (Inr (), ?w2)"
    using a c1 by (simp add: copy_def)
  have g2: "getMetadata P bm ?w2 = Ledger []"
    using g1 getMetadata_cong [of ?w2 bm w1 P] backupFilePath_neq_metadataFile [of bm clk src]
    by simp
  have h: "calculateFileHash P ?w2 src = Inr (md5 P (content_bytes P c))"
    using a c1 by (simp add: calculateFileHash_def)
  have rb: "fst (record_backup P bm info ?b [] ?w2) = Some info" for info
    using a by (simp add: record_backup_def Let_def writeJsonSync_def existsSync_def
        readJsonSync_def split: prod.splits)
  show "fst (createBackup P bm clk src w) \<noteq> None"
    using c e cp g2 h rb
    by (simp add: createBackup_def Let_def statSync_size_def existsSync_def
          backupFilePath_of_def)
next
  assume rf: "read_fails P (metadataFile bm)"
  show "fst (createBackup P bm clk src w) = None"
  proof (rule ccontr)
    assume "fst (createBackup P bm clk src w) \<noteq> None"
    then obtain info where "createBackup P bm clk src w = (Some info, snd (createBackup P bm clk src w))"
      by (metis not_None_eq prod.collapse)
    from createBackup_Some [OF this] obtain c w2 backups where
      "record_backup P bm (new_backup_info P clk src c) (backupFilePath_of bm clk src)
         backups w2 = (Some info, snd (createBackup P bm clk src w))"
      by blast
    from record_backup_Some(2) [OF this] rf show False
      by simp
  qed
qed

text \<open>
  An archive without \<^verbatim>\<open>metadata.json\<close>, one where it holds the bytes \<^verbatim>\<open>BB\<close>, and
  the one of the counterexample, where it cannot be read.
\<close>

theorem getMetadata_recovers_witness:
  "\<not> existsSync ex_world_empty (metadataFile ex_bm) \<and>
   getMetadata ex_platform ex_bm ex_world_empty = Ledger [] \<and>
   files ex_world_corrupt (metadataFile ex_bm) = Some (Bytes ''BB'') \<and>
   getMetadata ex_platform ex_bm ex_world_corrupt = Ledger [] \<and>
   deleteBackup ex_platform ex_bm (id_b ex_old) ex_world_corrupt = (False, ex_world_corrupt) \<and>
   existsSync ex_world_corrupt ''/g/s.sav'' \<and>
   fst (createBackup ex_platform ex_bm ex_clock ''/g/s.sav'' ex_world_corrupt) \<noteq> None \<and>
   read_fails ex_platform_ledger_unreadable (metadataFile ex_bm) \<and>
   getMetadata ex_platform_ledger_unreadable ex_bm (ex_world ''BBBB'') = Ledger [] \<and>
   restoreBackup ex_platform_ledger_unreadable ex_bm (id_b ex_old) ''/g/s.sav'' (ex_world ''BBBB'')
     = (False, ex_world ''BBBB'') \<and>
   fst (createBackup ex_platform_ledger_unreadable ex_bm ex_clock ''/g/s.sav'' (ex_world ''BBBB''))
     = None"
proof -
  have a1: "\<not> existsSync ex_world_empty (metadataFile ex_bm)"
    by (simp add: ex_simps)
  have a2: "files ex_world_corrupt (metadataFile ex_bm) = Some (Bytes ''BB'')"
    by (simp add: ex_simps)
  have a3: "existsSync ex_world_corrupt ''/g/s.sav''"
    by (simp add: ex_simps)
  have a4: "\<not> read_fails ex_platform ''/g/s.sav'' \<and>
      copy_outcome ex_platform ''/g/s.sav'' (backupFilePath_of ex_bm ex_clock ''/g/s.sav'') = CopyOk \<and>
      \<not> mkdir_fails ex_platform (backupPath ex_bm) \<and>
      \<not> write_fails ex_platform (metadataFile ex_bm) \<and>
      \<not> read_fails ex_platform (metadataFile ex_bm)"
    by (simp add: ex_platform_def)
  have a5: "read_fails ex_platform_ledger_unreadable (metadataFile ex_bm)"
    by (simp add: ex_simps)
  note t1 = getMetadata_recovers [of ex_world_empty ex_bm ex_platform "id_b ex_old" "''/g/s.sav''"
              "''/g/s.sav''" ex_clock]
  note t2 = getMetadata_recovers [of ex_world_corrupt ex_bm ex_platform "id_b ex_old" "''/g/s.sav''"
              "''/g/s.sav''" ex_clock]
  note t3 = getMetadata_recovers [of "ex_world ''BBBB''" ex_bm ex_platform_ledger_unreadable
              "id_b ex_old" "''/g/s.sav''" "''/g/s.sav''" ex_clock]
  from t1 a1 have b1: "getMetadata ex_platform ex_bm ex_world_empty = Ledger []"
    by blast
  from t2 a2 have b2: "getMetadata ex_platform ex_bm ex_world_corrupt = Ledger []"
    and b3: "deleteBackup ex_platform ex_bm (id_b ex_old) ex_world_corrupt = (False, ex_world_corrupt)"
    by blast+
  from t2 a2 a3 a4 have b4: "fst (createBackup ex_platform ex_bm ex_clock ''/g/s.sav'' ex_world_corrupt)
                               \<noteq> None"
    by blast
  from t3 a5 have b5: "getMetadata ex_platform_ledger_unreadable ex_bm (ex_world ''BBBB'') = Ledger []"
    and b6: "restoreBackup ex_platform_ledger_unreadable ex_bm (id_b ex_old) ''/g/s.sav''
               (ex_world ''BBBB'') = (False, ex_world ''BBBB'')"
    and b7: "fst (createBackup ex_platform_ledger_unreadable ex_bm ex_clock ''/g/s.sav''
                    (ex_world ''BBBB'')) = None"
    by blast+
  show ?thesis
    using a1 a2 a3 a5 b1 b2 b3 b4 b5 b6 b7 by (intro conjI)
qed

section \<open>The monitor\<close>

text \<open>
  C2, as stated: when a change signal finds a new digest and the creation of the
  backup fails, \<^verbatim>\<open>lastHash\<close> is not updated. Here the monitor runs, the save file
  changed from \<^verbatim>\<open>AAAA\<close> to \<^verbatim>\<open>BBBB\<close>, and the copy into the archive is refused:
  no backup is made, yet \<^verbatim>\<open>lastHash\<close> is the digest of \<^verbatim>\<open>BBBB\<close> afterwards.
\<close>

theorem checkFileChanges_retry_counterexample:
  "isMonitoring ex_monitor \<and>
   calculateFileHash ex_platform_copy_refused (ex_world ''BBBB'') (saveFilePath ex_monitor)
     = Inr ''f50881ced34c7d9e6bce100bf33dec60'' \<and>
   Some ''f50881ced34c7d9e6bce100bf33dec60'' \<noteq> lastHash ex_monitor \<and>
   fst (createBackup ex_platform_copy_refused (backupManager ex_monitor) ex_clock
          (saveFilePath ex_monitor) (ex_world ''BBBB'')) = None \<and>
   fst (createBackupIfNeeded ex_platform_copy_refused ex_clock
          (ex_monitor\<lparr>lastHash := Some ''f50881ced34c7d9e6bce100bf33dec60''\<rparr>)
          (ex_world ''BBBB'')) = False \<and>
   lastHash (fst (checkFileChanges ex_platform_copy_refused ex_clock ex_monitor (ex_world ''BBBB'')))
     \<noteq> lastHash ex_monitor"
  by (simp add: ex_simps ex_monitor_def new_SaveMonitor_def checkFileChanges_def
        createBackupIfNeeded_def emit_def)

text \<open>
  C2, amended. Whenever \<^verbatim>\<open>checkFileChanges\<close> computes the digest of the save file,
  \<^verbatim>\<open>lastHash\<close> is that digest afterwards, whether the creation of the backup
  succeeded, failed or was not tried. So a later signal that finds the same digest
  changes nothing: it does not try the backup again.
\<close>

theorem checkFileChanges_sets_lastHash:
  assumes "calculateFileHash P w (saveFilePath m) = Inr h"
  shows "lastHash (fst (checkFileChanges P clk m w)) = Some h \<and>
         (\<forall>clk' w'. calculateFileHash P w' (saveFilePath m) = Inr h \<longrightarrow>
            checkFileChanges P clk' (fst (checkFileChanges P clk m w)) w' =
              (fst (checkFileChanges P clk m w), w'))"
proof -
  let ?m' = "fst (checkFileChanges P clk m w)"
  have ex: "existsSync w (saveFilePath m)"
    using assms by (auto simp: calculateFileHash_def existsSync_def split: option.splits)
  have l: "lastHash ?m' = Some h"
    using ex assms by (simp add: checkFileChanges_def createBackupIfNeeded_keeps)
  have p: "saveFilePath ?m' = saveFilePath m"
    using ex assms by (simp add: checkFileChanges_def createBackupIfNeeded_keeps)
  have "checkFileChanges P clk' ?m' w' = (?m', w')"
    if "calculateFileHash P w' (saveFilePath m) = Inr h" for clk' w'
  proof -
    have "existsSync w' (saveFilePath m)"
      using that by (auto simp: calculateFileHash_def existsSync_def split: option.splits)
    then show ?thesis
      using that l p by (simp add: checkFileChanges_def)
  qed
  with l show ?thesis by blast
qed

text \<open>
  The run of the counterexample again: the digest is stored, and a second signal on
  the same files does nothing.
\<close>

theorem checkFileChanges_sets_lastHash_witness:
  "calculateFileHash ex_platform_copy_refused (ex_world ''BBBB'') (saveFilePath ex_monitor)
     = Inr ''f50881ced34c7d9e6bce100bf33dec60'' \<and>
   lastHash (fst (checkFileChanges ex_platform_copy_refused ex_clock ex_monitor (ex_world ''BBBB'')))
     = Some ''f50881ced34c7d9e6bce100bf33dec60'' \<and>
   checkFileChanges ex_platform_copy_refused ex_clock
     (fst (checkFileChanges ex_platform_copy_refused ex_clock ex_monitor (ex_world ''BBBB'')))
     (ex_world ''BBBB'') =
     (fst (checkFileChanges ex_platform_copy_refused ex_clock ex_monitor (ex_world ''BBBB'')),
      ex_world ''BBBB'')"
proof -
  have h: "calculateFileHash ex_platform_copy_refused (ex_world ''BBBB'') (saveFilePath ex_monitor)
             = Inr ''f50881ced34c7d9e6bce100bf33dec60''"
    by (simp add: ex_simps ex_monitor_def new_SaveMonitor_def)
  show ?thesis
    using h checkFileChanges_sets_lastHash [OF h, of ex_clock] by blast
qed

text \<open>
  C5, as stated: for a source of zero bytes the create operation of the backup store
  writes no archive file and appends no record. \<^verbatim>\<open>createBackup\<close> has no test of the
  size: on an empty save file it returns a record, the (empty) archive file is there
  and the ledger has one record.
\<close>

theorem createBackup_empty_source_counterexample:
  "files ex_world_empty ''/g/s.sav'' = Some (Bytes []) \<and>
   length (content_bytes ex_platform (Bytes [])) = 0 \<and>
   fst (createBackup ex_platform ex_bm50 ex_clock ''/g/s.sav'' ex_world_empty)
     \<noteq> None \<and>
   files (snd (createBackup ex_platform ex_bm50 ex_clock ''/g/s.sav''
                 ex_world_empty)) ''/b/backup_2000_r_s.sav'' = Some (Bytes []) \<and>
   length (stored_backups ex_platform ex_bm50
             (snd (createBackup ex_platform ex_bm50 ex_clock ''/g/s.sav''
                     ex_world_empty))) = 1"
  by (simp add: ex_simps)

text \<open>
  C5, amended. The test of the size is in \<^verbatim>\<open>SaveMonitor.createBackupIfNeeded\<close>, the
  only caller of \<^verbatim>\<open>createBackup\<close>: for a save file of zero bytes it answers
  \<^verbatim>\<open>false\<close> without calling \<^verbatim>\<open>createBackup\<close>; no file is written, the ledger is
  not touched, and no event (so no \<^verbatim>\<open>error\<close> event) is emitted.
\<close>

theorem createBackupIfNeeded_empty_source:
  assumes "files w (saveFilePath m) = Some c" and "length (content_bytes P c) = 0"
  shows "createBackupIfNeeded P clk m w = (False, m, w)"
  using assms by (simp add: createBackupIfNeeded_def statSync_size_def)

theorem createBackupIfNeeded_empty_source_witness:
  "files ex_world_empty (saveFilePath ex_monitor) = Some (Bytes []) \<and>
   length (content_bytes ex_platform (Bytes [])) = 0 \<and>
   createBackupIfNeeded ex_platform ex_clock ex_monitor ex_world_empty
     = (False, ex_monitor, ex_world_empty)"
proof -
  have a1: "files ex_world_empty (saveFilePath ex_monitor) = Some (Bytes [])"
    by (simp add: ex_simps ex_monitor_def new_SaveMonitor_def)
  have a2: "length (content_bytes ex_platform (Bytes [])) = 0"
    by (simp add: ex_simps)
  show ?thesis
    using createBackupIfNeeded_empty_source [OF a1 a2, of ex_clock] a1 a2 by simp
qed

text \<open>
  C6, as stated: whenever the monitor runs, \<^verbatim>\<open>forceBackup\<close> invokes the create
  operation of the backup store. Here the monitor runs and the save file has zero
  bytes: \<^verbatim>\<open>forceBackup\<close> answers \<^verbatim>\<open>true\<close> and nothing has changed, while
  \<^verbatim>\<open>createBackup\<close> on the same files would have written an archive file and a
  ledger; it was not called.
\<close>

theorem forceBackup_zero_byte_counterexample:
  "isMonitoring ex_monitor \<and>
   files ex_world_empty (saveFilePath ex_monitor) = Some (Bytes []) \<and>
   forceBackup ex_platform ex_clock ex_monitor ex_world_empty = (True, ex_monitor, ex_world_empty) \<and>
   files ex_world_empty ''/b/backup_2000_r_s.sav'' = None \<and>
   files (snd (createBackup ex_platform (backupManager ex_monitor) ex_clock
                 (saveFilePath ex_monitor) ex_world_empty)) ''/b/backup_2000_r_s.sav''
     = Some (Bytes [])"
  by (simp add: ex_simps ex_monitor_def new_SaveMonitor_def forceBackup_def
        createBackupIfNeeded_def)

text \<open>
  C6, amended. Whenever the monitor runs, \<^verbatim>\<open>forceBackup\<close> answers \<^verbatim>\<open>true\<close>, whatever
  the capture gave (a duplicate too). It does not look at \<^verbatim>\<open>lastHash\<close>: with any other
  value of \<^verbatim>\<open>lastHash\<close> it answers the same and leaves the same files and the same
  monitor, up to that field. What it runs is \<^verbatim>\<open>createBackupIfNeeded\<close>, always; for
  a save file that is present and not empty (the test \<^verbatim>\<open>createBackupIfNeeded\<close>
  makes first), the files afterwards are those \<^verbatim>\<open>createBackup\<close> leaves: the create
  operation has run.
\<close>

theorem forceBackup_unconditional:
  assumes "isMonitoring m"
  shows "fst (forceBackup P clk m w) = True \<and>
         (\<forall>h. forceBackup P clk (m\<lparr>lastHash := h\<rparr>) w =
                (True, (fst (snd (forceBackup P clk m w)))\<lparr>lastHash := h\<rparr>,
                 snd (snd (forceBackup P clk m w)))) \<and>
         snd (forceBackup P clk m w) = snd (createBackupIfNeeded P clk m w) \<and>
         (\<forall>c. files w (saveFilePath m) = Some c \<and> 0 < length (content_bytes P c) \<longrightarrow>
               snd (snd (forceBackup P clk m w)) =
                 snd (createBackup P (backupManager m) clk (saveFilePath m) w))"
  using assms
  by (auto simp add: forceBackup_def createBackupIfNeeded_lastHash statSync_size_def
        createBackupIfNeeded_def emit_def split: prod.splits option.splits)

text \<open>
  The running monitor on the save file \<^verbatim>\<open>AAAA\<close>, whose digest is \<^verbatim>\<open>lastHash\<close> and
  the \<^verbatim>\<open>hash\<close> of the last backup: \<^verbatim>\<open>forceBackup\<close> answers \<^verbatim>\<open>true\<close>.
\<close>

theorem forceBackup_unconditional_witness:
  "isMonitoring ex_monitor \<and>
   lastHash ex_monitor = Some (md5 ex_platform ''AAAA'') \<and>
   calculateFileHash ex_platform (ex_world ''AAAA'') (saveFilePath ex_monitor) =
     Inr (hash (last (stored_backups ex_platform (backupManager ex_monitor) (ex_world ''AAAA'')))) \<and>
   fst (forceBackup ex_platform ex_clock ex_monitor (ex_world ''AAAA'')) = True \<and>
   fst (forceBackup ex_platform ex_clock (ex_monitor\<lparr>lastHash := None\<rparr>) (ex_world ''AAAA''))
     = True \<and>
   files (ex_world ''AAAA'') (saveFilePath ex_monitor) = Some (Bytes ''AAAA'') \<and>
   0 < length (content_bytes ex_platform (Bytes ''AAAA'')) \<and>
   snd (snd (forceBackup ex_platform ex_clock ex_monitor (ex_world ''AAAA''))) =
     snd (createBackup ex_platform (backupManager ex_monitor) ex_clock (saveFilePath ex_monitor)
            (ex_world ''AAAA''))"
proof -
  have a1: "isMonitoring ex_monitor"
    by (simp add: ex_monitor_def)
  have a2: "files (ex_world ''AAAA'') (saveFilePath ex_monitor) = Some (Bytes ''AAAA'')"
    by (simp add: ex_simps ex_monitor_def new_SaveMonitor_def)
  have a3: "0 < length (content_bytes ex_platform (Bytes ''AAAA''))"
    by (simp add: ex_simps)
  have a4: "lastHash ex_monitor = Some (md5 ex_platform ''AAAA'')"
    by (simp add: ex_monitor_def ex_platform_def ex_md5_def)
  have a5: "calculateFileHash ex_platform (ex_world ''AAAA'') (saveFilePath ex_monitor) =
     Inr (hash (last (stored_backups ex_platform (backupManager ex_monitor) (ex_world ''AAAA''))))"
    by (simp add: ex_simps ex_monitor_def new_SaveMonitor_def)
  note t = forceBackup_unconditional [OF a1, of ex_platform ex_clock "ex_world ''AAAA''"]
  from t have t1: "fst (forceBackup ex_platform ex_clock ex_monitor (ex_world ''AAAA'')) = True"
    by blast
  from t have t2: "fst (forceBackup ex_platform ex_clock (ex_monitor\<lparr>lastHash := None\<rparr>)
                         (ex_world ''AAAA'')) = True"
    by (metis fst_conv)
  from t a2 a3 have t3:
    "snd (snd (forceBackup ex_platform ex_clock ex_monitor (ex_world ''AAAA''))) =
       snd (createBackup ex_platform (backupManager ex_monitor) ex_clock (saveFilePath ex_monitor)
              (ex_world ''AAAA''))"
    by blast
  show ?thesis
    using a1 a2 a3 a4 a5 t1 t2 t3 by (intro conjI)
qed

text \<open>
  C9. \<^verbatim>\<open>stop\<close> on a monitor that does not run answers \<^verbatim>\<open>false\<close> and changes
  nothing. From every state, a second \<^verbatim>\<open>stop\<close> leaves the state the first one
  left, and the monitor does not run afterwards. When the monitor ran, the watcher
  and both timers are dropped afterwards and their handles are no longer active.
\<close>

theorem stop_idempotent:
  "(\<not> isMonitoring m \<longrightarrow> stop m = (False, m)) \<and>
   snd (stop (snd (stop m))) = snd (stop m) \<and>
   \<not> isMonitoring (snd (stop m)) \<and>
   (isMonitoring m \<longrightarrow>
      watcher (snd (stop m)) = None \<and>
      checkInterval (snd (stop m)) = None \<and>
      debounceTimeout (snd (stop m)) = None \<and>
      (\<forall>h. watcher m = Some h \<or> checkInterval m = Some h \<or> debounceTimeout m = Some h
           \<longrightarrow> h \<notin> active (snd (stop m))))"
proof (intro conjI impI)
  show "snd (stop (snd (stop m))) = snd (stop m)"
    using stop_not_running [OF stop_stopped [of m]] by simp
next
  assume r: "isMonitoring m"
  then show "watcher (snd (stop m)) = None"
    by (simp add: stop_def emit_def release_def Let_def split: option.splits)
  from r show "checkInterval (snd (stop m)) = None"
    by (simp add: stop_def emit_def release_def Let_def split: option.splits)
  from r show "debounceTimeout (snd (stop m)) = None"
    by (simp add: stop_def emit_def release_def Let_def split: option.splits)
  from r show "\<forall>h. watcher m = Some h \<or> checkInterval m = Some h \<or> debounceTimeout m = Some h
           \<longrightarrow> h \<notin> active (snd (stop m))"
    by (auto simp add: stop_def emit_def release_def Let_def split: option.splits)
qed (simp_all add: stop_not_running stop_stopped)

theorem stop_idempotent_witness:
  "\<not> isMonitoring (new_SaveMonitor ''/g/s.sav'' ex_bm) \<and>
   stop (new_SaveMonitor ''/g/s.sav'' ex_bm) = (False, new_SaveMonitor ''/g/s.sav'' ex_bm) \<and>
   isMonitoring ex_monitor \<and> watcher ex_monitor = Some 1 \<and>
   snd (stop (snd (stop ex_monitor))) = snd (stop ex_monitor) \<and>
   watcher (snd (stop ex_monitor)) = None \<and>
   1 \<notin> active (snd (stop ex_monitor))"
proof -
  have a1: "\<not> isMonitoring (new_SaveMonitor ''/g/s.sav'' ex_bm)"
    by (simp add: new_SaveMonitor_def)
  have a2: "isMonitoring ex_monitor" "watcher ex_monitor = Some 1"
    by (simp_all add: ex_monitor_def)
  show ?thesis
    using stop_idempotent [of "new_SaveMonitor ''/g/s.sav'' ex_bm"] stop_idempotent [of ex_monitor]
      a1 a2
    by auto
qed

end
